theory Spec2Isabelle
  imports Complex_Main "HOL-Library.Word"
begin

unbundle bit_operations_syntax

section \<open>C data: bytes, strings and machine integers\<close>

text \<open>
  A C \<open>char\<close> is a byte, \<open>unsigned char\<close> and \<open>unsigned short\<close> are 8 and 16 bit
  words, \<open>int\<close> is a 32 bit word. A \<open>const char *\<close> argument is the list of the bytes
  stored from the pointer on; the array's terminating NUL is implied after the last
  byte listed, and a zero byte inside the list is a terminator too (the loops below
  test \<open>*data\<close> at every position).
\<close>

type_synonym byte = "8 word"
type_synonym ushort = "16 word"
type_synonym cint = "32 word"

text \<open>A string literal as the bytes of its characters.\<close>

definition cstring :: "string \<Rightarrow> byte list" where
  "cstring s = map of_char s"

text \<open>
  \<open>(unsigned short)(*data)\<close>: whether plain \<open>char\<close> is signed is left to the
  platform, so the conversion takes the signedness as a parameter: a signed \<open>char\<close>
  is sign-extended, an unsigned one zero-extended.
\<close>

definition char_to_ushort :: "bool \<Rightarrow> byte \<Rightarrow> ushort" where
  "char_to_ushort sg c = (if sg then scast c else ucast c)"

section \<open>CRC16-CCITT (\<open>level2/ahrs_filter.c\<close>, \<open>crc16_ccitt\<close>)\<close>

text \<open>
  The body of the inner \<open>for\<close> loop. \<open>crc\<close> is promoted to \<open>int\<close> for \<open>&\<close>, \<open><<\<close> and
  \<open>^\<close>, and the assignment converts back to \<open>unsigned short\<close>.
\<close>

definition crc16_shift :: "ushort \<Rightarrow> ushort" where
  "crc16_shift crc =
     (if (ucast crc :: cint) AND 0x8000 \<noteq> 0
      then ucast (push_bit 1 (ucast crc :: cint) XOR 0x1021)
      else ucast (push_bit 1 (ucast crc :: cint)))"

text \<open>\<open>for (int i = 0; i < 8; i++)\<close>: the argument counts the rounds left.\<close>

fun crc16_rounds :: "nat \<Rightarrow> ushort \<Rightarrow> ushort" where
  "crc16_rounds 0 crc = crc"
| "crc16_rounds (Suc n) crc = crc16_rounds n (crc16_shift crc)"

text \<open>One pass of the \<open>while\<close> body: \<open>crc ^= ((unsigned short)(*data++) << 8)\<close>, then
  the eight rounds.\<close>

definition crc16_byte :: "bool \<Rightarrow> ushort \<Rightarrow> byte \<Rightarrow> ushort" where
  "crc16_byte sg crc c =
     crc16_rounds 8
       (ucast ((ucast crc :: cint) XOR push_bit 8 (ucast (char_to_ushort sg c) :: cint)))"

text \<open>\<open>while (*data) { ... }\<close> from a given register value.\<close>

fun crc16_loop :: "bool \<Rightarrow> ushort \<Rightarrow> byte list \<Rightarrow> ushort" where
  "crc16_loop sg crc [] = crc"
| "crc16_loop sg crc (c # cs) =
     (if c = 0 then crc else crc16_loop sg (crc16_byte sg crc c) cs)"

definition crc16_ccitt :: "bool \<Rightarrow> byte list \<Rightarrow> ushort" where
  "crc16_ccitt sg data = crc16_loop sg 0xFFFF data"

section \<open>XOR checksum (Level-1 transmitter, \<open>calculate_checksum\<close>)\<close>

text \<open>\<open>chk ^= (unsigned char)*buf\<close>: both operands are promoted to \<open>int\<close>, the result
  is converted back to \<open>unsigned char\<close>.\<close>

definition xor_byte :: "byte \<Rightarrow> byte \<Rightarrow> byte" where
  "xor_byte chk c = ucast ((ucast chk :: cint) XOR (ucast c :: cint))"

fun xor_loop :: "byte \<Rightarrow> byte list \<Rightarrow> byte" where
  "xor_loop chk [] = chk"
| "xor_loop chk (c # cs) = (if c = 0 then chk else xor_loop (xor_byte chk c) cs)"

definition calculate_checksum :: "byte list \<Rightarrow> byte" where
  "calculate_checksum buf = xor_loop 0 buf"

section \<open>Floating point and the C library as parameters\<close>

text \<open>
  The filter computes in \<open>float\<close>, with \<open>double\<close> inside \<open>deg2rad\<close> and \<open>rad2deg\<close>
  (\<open>M_PI\<close> is a \<open>double\<close>). The arithmetic is not fixed here: \<open>'f\<close> and \<open>'d\<close> are any
  types with \<open>+\<close>, \<open>-\<close>, \<open>*\<close> and \<open>/\<close> (no law is assumed of them), and what the
  program takes from the compiler and from libc and libm comes in a record:
  the value of a decimal constant (\<open>lit\<close>), the conversion of an \<open>int\<close> (\<open>i2f\<close>), the
  comparison \<open>==\<close> (\<open>feq\<close>), the conversions between \<open>float\<close> and \<open>double\<close>, \<open>M_PI\<close>,
  \<open>sqrtf\<close>, \<open>atan2f\<close>, \<open>asinf\<close>, the conversion \<open>%.2f\<close> of \<open>printf\<close>, and whether
  plain \<open>char\<close> is signed. Every theorem below holds for all of them.
\<close>

record ('f, 'd) platform =
  char_signed :: bool
  lit :: "rat \<Rightarrow> 'f"
  i2f :: "int \<Rightarrow> 'f"
  feq :: "'f \<Rightarrow> 'f \<Rightarrow> bool"
  f2d :: "'f \<Rightarrow> 'd"
  d2f :: "'d \<Rightarrow> 'f"
  m_pi :: "'d"
  sqrtf :: "'f \<Rightarrow> 'f"
  atan2f :: "'f \<Rightarrow> 'f \<Rightarrow> 'f"
  asinf :: "'f \<Rightarrow> 'f"
  printf_2f :: "'d \<Rightarrow> byte list"

text \<open>\<open>d * (M_PI / 180.0f)\<close> and \<open>r * (180.0f / M_PI)\<close>, computed in \<open>double\<close>.\<close>

definition deg2rad :: "('f, 'd::{times,inverse}) platform \<Rightarrow> 'f \<Rightarrow> 'f" where
  "deg2rad M d = d2f M (f2d M d * (m_pi M / f2d M (lit M 180)))"

definition rad2deg :: "('f, 'd::{times,inverse}) platform \<Rightarrow> 'f \<Rightarrow> 'f" where
  "rad2deg M r = d2f M (f2d M r * (f2d M (lit M 180) / m_pi M))"

section \<open>The orientation filter (\<open>level2/ahrs_filter.c\<close>)\<close>

record 'f imu_sample_t =
  ax :: 'f  ay :: 'f  az :: 'f
  gx :: 'f  gy :: 'f  gz :: 'f
  mx :: 'f  my :: 'f  mz :: 'f

text \<open>The file-scope variables \<open>q0, q1, q2, q3\<close>, passed and returned explicitly.\<close>

record 'f quat =
  q0 :: 'f  q1 :: 'f  q2 :: 'f  q3 :: 'f

text \<open>\<open>static float q0 = 1.0f, q1 = 0.0f, q2 = 0.0f, q3 = 0.0f;\<close>\<close>

definition q_init :: "('f, 'd) platform \<Rightarrow> 'f quat" where
  "q_init M = \<lparr>q0 = lit M 1, q1 = lit M 0, q2 = lit M 0, q3 = lit M 0\<rparr>"

definition inv_sqrt :: "('f::inverse, 'd) platform \<Rightarrow> 'f \<Rightarrow> 'f" where
  "inv_sqrt M x = lit M 1 / sqrtf M x"

text \<open>
  \<open>madgwick_update\<close>. The source reuses one variable \<open>norm\<close>; its three values are
  \<open>norm_a\<close>, \<open>norm_m\<close> and \<open>norm_q\<close> here. Each \<open>return\<close> leaves the quaternion as it
  was. The normalised accelerometer and magnetometer components are computed, as in
  the source, and not used.
\<close>

definition madgwick_update ::
  "('f::{plus,minus,uminus,times,inverse}, 'd::{times,inverse}) platform
    \<Rightarrow> 'f quat \<Rightarrow> 'f imu_sample_t \<Rightarrow> 'f \<Rightarrow> 'f quat" where
  "madgwick_update M q imu dt =
    (let gxr = deg2rad M (gx imu);
         gyr = deg2rad M (gy imu);
         gzr = deg2rad M (gz imu);
         norm_a = sqrtf M (ax imu * ax imu + ay imu * ay imu + az imu * az imu)
     in if feq M norm_a (lit M 0) then q
     else
       let axn = ax imu / norm_a; ayn = ay imu / norm_a; azn = az imu / norm_a;
           norm_m = sqrtf M (mx imu * mx imu + my imu * my imu + mz imu * mz imu)
       in if feq M norm_m (lit M 0) then q
       else
         let mxn = mx imu / norm_m; myn = my imu / norm_m; mzn = mz imu / norm_m;
             qDot0 = lit M (1/2) * ((- q1 q) * gxr - q2 q * gyr - q3 q * gzr);
             qDot1 = lit M (1/2) * (q0 q * gxr + q2 q * gzr - q3 q * gyr);
             qDot2 = lit M (1/2) * (q0 q * gyr - q1 q * gzr + q3 q * gxr);
             qDot3 = lit M (1/2) * (q0 q * gzr + q1 q * gyr - q2 q * gxr);
             n0 = q0 q + qDot0 * dt;
             n1 = q1 q + qDot1 * dt;
             n2 = q2 q + qDot2 * dt;
             n3 = q3 q + qDot3 * dt;
             norm_q = inv_sqrt M (n0 * n0 + n1 * n1 + n2 * n2 + n3 * n3)
         in \<lparr>q0 = n0 * norm_q, q1 = n1 * norm_q, q2 = n2 * norm_q, q3 = n3 * norm_q\<rparr>)"

text \<open>\<open>ahrs_get_euler\<close> writes roll, pitch and yaw through its three pointers; the
  result is the triple, together with the quaternion variables after the call.\<close>

definition ahrs_get_euler ::
  "('f::{plus,minus,times}, 'd::{times,inverse}) platform
    \<Rightarrow> 'f quat \<Rightarrow> ('f \<times> 'f \<times> 'f) \<times> 'f quat" where
  "ahrs_get_euler M q =
    (let roll = rad2deg M (atan2f M (i2f M 2 * (q0 q * q1 q + q2 q * q3 q))
                                    (i2f M 1 - i2f M 2 * (q1 q * q1 q + q2 q * q2 q)));
         pitch = rad2deg M (asinf M (i2f M 2 * (q0 q * q2 q - q3 q * q1 q)));
         yaw = rad2deg M (atan2f M (i2f M 2 * (q0 q * q3 q + q1 q * q2 q))
                                   (i2f M 1 - i2f M 2 * (q2 q * q2 q + q3 q * q3 q)))
     in ((roll, pitch, yaw), q))"

text \<open>The two norms that \<open>madgwick_update\<close> tests against \<open>0.0f\<close>.\<close>

definition accel_norm :: "('f::{plus,times}, 'd) platform \<Rightarrow> 'f imu_sample_t \<Rightarrow> 'f" where
  "accel_norm M imu = sqrtf M (ax imu * ax imu + ay imu * ay imu + az imu * az imu)"

definition mag_norm :: "('f::{plus,times}, 'd) platform \<Rightarrow> 'f imu_sample_t \<Rightarrow> 'f" where
  "mag_norm M imu = sqrtf M (mx imu * mx imu + my imu * my imu + mz imu * mz imu)"

subsection \<open>The update as the specification words it\<close>

text \<open>
  The specification's gyroscope-only step: the quaternion derivative
  \<open>0.5 * (q \<otimes> \<omega>)\<close> for the angular rate \<open>\<omega>\<close> in radians per second, one Euler
  step over \<open>dt\<close>, and the renormalisation to unit length. The product of \<open>q\<close> with
  the pure quaternion \<open>(0, \<omega>)\<close> is written by components.
\<close>

definition quat_rate ::
  "('f::{plus,minus,uminus,times}, 'd) platform \<Rightarrow> 'f quat \<Rightarrow> 'f \<Rightarrow> 'f \<Rightarrow> 'f \<Rightarrow> 'f quat" where
  "quat_rate M q wx wy wz =
    \<lparr>q0 = lit M (1/2) * ((- q1 q) * wx - q2 q * wy - q3 q * wz),
     q1 = lit M (1/2) * (q0 q * wx + q2 q * wz - q3 q * wy),
     q2 = lit M (1/2) * (q0 q * wy - q1 q * wz + q3 q * wx),
     q3 = lit M (1/2) * (q0 q * wz + q1 q * wy - q2 q * wx)\<rparr>"

definition euler_step :: "'f::{plus,times} quat \<Rightarrow> 'f quat \<Rightarrow> 'f \<Rightarrow> 'f quat" where
  "euler_step q qDot dt =
    \<lparr>q0 = q0 q + q0 qDot * dt, q1 = q1 q + q1 qDot * dt,
     q2 = q2 q + q2 qDot * dt, q3 = q3 q + q3 qDot * dt\<rparr>"

definition renormalize :: "('f::{plus,times,inverse}, 'd) platform \<Rightarrow> 'f quat \<Rightarrow> 'f quat" where
  "renormalize M q =
    (let s = lit M 1 / sqrtf M (q0 q * q0 q + q1 q * q1 q + q2 q * q2 q + q3 q * q3 q)
     in \<lparr>q0 = q0 q * s, q1 = q1 q * s, q2 = q2 q * s, q3 = q3 q * s\<rparr>)"

definition gyro_update ::
  "('f::{plus,minus,uminus,times,inverse}, 'd::{times,inverse}) platform
    \<Rightarrow> 'f quat \<Rightarrow> 'f \<Rightarrow> 'f \<Rightarrow> 'f \<Rightarrow> 'f \<Rightarrow> 'f quat" where
  "gyro_update M q wx wy wz dt =
     renormalize M (euler_step q (quat_rate M q (deg2rad M wx) (deg2rad M wy) (deg2rad M wz)) dt)"

text \<open>The Hamilton product, for the comparison with \<open>quat_rate\<close> in a ring.\<close>

definition quat_mul :: "'f::{plus,minus,times} quat \<Rightarrow> 'f quat \<Rightarrow> 'f quat" where
  "quat_mul a b =
    \<lparr>q0 = q0 a * q0 b - q1 a * q1 b - q2 a * q2 b - q3 a * q3 b,
     q1 = q0 a * q1 b + q1 a * q0 b + q2 a * q3 b - q3 a * q2 b,
     q2 = q0 a * q2 b - q1 a * q3 b + q2 a * q0 b + q3 a * q1 b,
     q3 = q0 a * q3 b + q1 a * q2 b - q2 a * q1 b + q3 a * q0 b\<rparr>"

section \<open>The frame encoder (\<open>main\<close> of \<open>level2/ahrs_filter.c\<close>)\<close>

text \<open>The conversions \<open>%X\<close>, \<open>%04X\<close>, \<open>%u\<close> and \<open>%lld\<close> of \<open>printf\<close>: the digits of the
  value, most significant first, padded with zeros to four where the width says so.\<close>

definition hex_digit :: "nat \<Rightarrow> byte" where
  "hex_digit n = cstring ''0123456789ABCDEF'' ! n"

definition dec_digit :: "nat \<Rightarrow> byte" where
  "dec_digit n = cstring ''0123456789'' ! n"

function printf_X :: "nat \<Rightarrow> byte list" where
  "printf_X n = (if n < 16 then [hex_digit n] else printf_X (n div 16) @ [hex_digit (n mod 16)])"
  by pat_completeness auto
termination
  by (relation "measure (\<lambda>n. n)") auto

function printf_u :: "nat \<Rightarrow> byte list" where
  "printf_u n = (if n < 10 then [dec_digit n] else printf_u (n div 10) @ [dec_digit (n mod 10)])"
  by pat_completeness auto
termination
  by (relation "measure (\<lambda>n. n)") auto

declare printf_X.simps [simp del]
declare printf_u.simps [simp del]

definition printf_04X :: "ushort \<Rightarrow> byte list" where
  "printf_04X v = (let ds = printf_X (unat v) in replicate (4 - length ds) (hex_digit 0) @ ds)"

definition printf_lld :: "64 word \<Rightarrow> byte list" where
  "printf_lld v =
     (if sint v < 0 then cstring ''-'' @ printf_u (nat (- sint v)) else printf_u (nat (sint v)))"

text \<open>\<open>snprintf(buf, sz, ...)\<close> stores at most \<open>sz - 1\<close> bytes of the formatted text and
  a NUL after them.\<close>

definition snprintf :: "nat \<Rightarrow> byte list \<Rightarrow> byte list" where
  "snprintf sz text = take (sz - 1) text"

text \<open>The text of the format \<open>"L2,%lld,%.2f,%.2f,%.2f,%.2f,%.2f"\<close>; a \<open>float\<close> argument of
  \<open>snprintf\<close> is promoted to \<open>double\<close>.\<close>

definition l2_payload ::
  "('f, 'd) platform \<Rightarrow> 64 word \<Rightarrow> 'f \<Rightarrow> 'f \<Rightarrow> 'f \<Rightarrow> 'f \<Rightarrow> 'f \<Rightarrow> byte list" where
  "l2_payload M ts roll pitch yaw altitude temperature =
     cstring ''L2,'' @ printf_lld ts
       @ cstring '','' @ printf_2f M (f2d M roll)
       @ cstring '','' @ printf_2f M (f2d M pitch)
       @ cstring '','' @ printf_2f M (f2d M yaw)
       @ cstring '','' @ printf_2f M (f2d M altitude)
       @ cstring '','' @ printf_2f M (f2d M temperature)"

text \<open>\<open>snprintf\<close> into \<open>char payload[200]\<close>, \<open>crc16_ccitt(payload)\<close>, and the text that
  \<open>printf("$%s*%04X\n", payload, crc)\<close> writes; \<open>%s\<close> prints up to the NUL.\<close>

definition l2_frame ::
  "('f, 'd) platform \<Rightarrow> 64 word \<Rightarrow> 'f \<Rightarrow> 'f \<Rightarrow> 'f \<Rightarrow> 'f \<Rightarrow> 'f \<Rightarrow> byte list" where
  "l2_frame M ts roll pitch yaw altitude temperature =
     (let payload = snprintf 200 (l2_payload M ts roll pitch yaw altitude temperature);
          crc = crc16_ccitt (char_signed M) payload
      in cstring ''$'' @ takeWhile (\<lambda>c. c \<noteq> 0) payload @ cstring ''*'' @ printf_04X crc @ [0x0A])"

definition LOOP_HZ :: int where
  "LOOP_HZ = 20"

definition LOOP_DT_SEC :: "('f::inverse, 'd) platform \<Rightarrow> 'f" where
  "LOOP_DT_SEC M = lit M 1 / i2f M LOOP_HZ"

text \<open>
  One pass of \<open>while (1)\<close> in \<open>main\<close>. The state is the quaternion and the tick counter
  \<open>t\<close>; the sample that \<open>imu_read\<close> produced and the value of \<open>millis_since\<close> are
  inputs; the result is the line written to \<open>stdout\<close> and the next state.
\<close>

definition main_tick ::
  "('f::{plus,minus,uminus,times,inverse}, 'd::{times,inverse}) platform
    \<Rightarrow> 'f quat \<times> int \<Rightarrow> 'f imu_sample_t \<Rightarrow> 64 word \<Rightarrow> byte list \<times> ('f quat \<times> int)" where
  "main_tick M st imu ts =
     (let t = snd st;
          q = madgwick_update M (fst st) imu (LOOP_DT_SEC M);
          ((roll, pitch, yaw), q') = ahrs_get_euler M q;
          altitude = lit M 100 + lit M (5/100) * i2f M t;
          temperature = lit M 30
      in (l2_frame M ts roll pitch yaw altitude temperature, (q', t + 1)))"


section \<open>An instance: exact real arithmetic\<close>

text \<open>The parameters instantiated with the real numbers, for concrete instances of
  the theorems. \<open>%.2f\<close> rounds to the nearest hundredth.\<close>

definition ideal_atan2 :: "real \<Rightarrow> real \<Rightarrow> real" where
  "ideal_atan2 y x =
    (if 0 < x then arctan (y / x)
     else if x < 0 then (if 0 \<le> y then arctan (y / x) + pi else arctan (y / x) - pi)
     else if 0 < y then pi / 2 else if y < 0 then - (pi / 2) else 0)"

definition ideal_printf_2f :: "real \<Rightarrow> byte list" where
  "ideal_printf_2f x =
     (let n = nat \<lfloor>\<bar>x\<bar> * 100 + 1/2\<rfloor>
      in (if x < 0 then cstring ''-'' else []) @ printf_u (n div 100) @ cstring ''.''
           @ [dec_digit (n div 10 mod 10), dec_digit (n mod 10)])"

definition ideal :: "(real, real) platform" where
  "ideal = \<lparr>char_signed = True, lit = of_rat, i2f = of_int, feq = (=),
            f2d = (\<lambda>x. x), d2f = (\<lambda>x. x), m_pi = pi, sqrtf = sqrt,
            atan2f = ideal_atan2, asinf = arcsin, printf_2f = ideal_printf_2f\<rparr>"

definition quat_norm2 :: "real quat \<Rightarrow> real" where
  "quat_norm2 q = q0 q * q0 q + q1 q * q1 q + q2 q * q2 q + q3 q * q3 q"

definition sample_level :: "real imu_sample_t" where
  "sample_level = \<lparr>ax = 0, ay = 0, az = 1, gx = 0, gy = 0, gz = 10, mx = 1, my = 0, mz = 0\<rparr>"


definition sample_free_fall :: "real imu_sample_t" where
  "sample_free_fall = \<lparr>ax = 0, ay = 0, az = 0, gx = 0, gy = 0, gz = 10, mx = 1, my = 0, mz = 0\<rparr>"


text \<open>The heading after \<open>k\<close> passes of the filter over the sample \<open>sample_level\<close>
  (10 degrees per second about the vertical) from the initial quaternion, and the half
  angle that one pass adds.\<close>

definition tick_angle :: real where
  "tick_angle = arctan (pi / 720)"

definition ideal_heading :: "nat \<Rightarrow> real" where
  "ideal_heading k = snd (snd (fst (ahrs_get_euler ideal
     (((\<lambda>q. madgwick_update ideal q sample_level (LOOP_DT_SEC ideal)) ^^ k) (q_init ideal)))))"

section \<open>The checksums in 8 and 16 bit arithmetic\<close>





lemma crc16_xor_in:
  "(ucast ((ucast crc :: cint) XOR push_bit 8 (ucast (char_to_ushort sg c) :: cint)) :: ushort)
     = crc XOR push_bit 8 (ucast c)"
  by (rule bit_word_eqI) (auto simp: bit_simps char_to_ushort_def)

lemma crc16_byte_eq: "crc16_byte sg crc c = crc16_rounds 8 (crc XOR push_bit 8 (ucast c))"
  unfolding crc16_byte_def crc16_xor_in ..


text \<open>So the signedness of \<open>char\<close> is immaterial to the CRC.\<close>

lemma crc16_loop_signedness: "crc16_loop sg crc cs = crc16_loop False crc cs"
  by (induction cs arbitrary: crc) (simp_all add: crc16_byte_eq)

section \<open>The register is never lost: every step is injective\<close>












section \<open>The loops stop at the first zero byte\<close>

lemma crc16_loop_takeWhile:
  "crc16_loop sg crc cs = crc16_loop sg crc (takeWhile (\<lambda>c. c \<noteq> 0) cs)"
  by (induction cs arbitrary: crc) simp_all

lemma xor_loop_takeWhile: "xor_loop chk cs = xor_loop chk (takeWhile (\<lambda>c. c \<noteq> 0) cs)"
  by (induction cs arbitrary: chk) simp_all

lemma takeWhile_append_nul:
  "takeWhile (\<lambda>c. c \<noteq> (0 :: byte)) (p @ 0 # r) = takeWhile (\<lambda>c. c \<noteq> 0) p"
  by (induction p) simp_all

section \<open>One changed byte inside the string\<close>




section \<open>Known vectors\<close>

text \<open>
  C4. The CRC16 checksum function (polynomial 0x1021, initial register 0xFFFF, no
  final XOR, most significant bit first) applied to the nine-character string
  "123456789" returns exactly 0x29B1, whichever signedness \<open>char\<close> has.
\<close>

theorem crc16_ccitt_check_value: "crc16_ccitt sg (cstring ''123456789'') = 0x29B1"
  unfolding crc16_ccitt_def crc16_loop_signedness[of sg] by code_simp

text \<open>
  C9. The Level-1 XOR checksum function applied to the two-character payload "AB"
  returns exactly 0x03, which is 0x41 XOR 0x42.
\<close>

theorem calculate_checksum_AB:
  "calculate_checksum (cstring ''AB'') = 0x03 \<and> (0x41 :: byte) XOR 0x42 = 0x03"
  by code_simp

section \<open>NUL termination\<close>

text \<open>
  C10. Both checksum functions treat their input as a NUL-terminated string: for every
  byte sequence, the CRC16 checksum and the XOR checksum equal the checksum of the
  prefix before the first zero byte; the checksum of the empty string is 0xFFFF for
  CRC16 and 0x00 for XOR; and the bytes at or after a zero byte have no effect on the
  result.
\<close>

theorem checksums_nul_terminated:
  "crc16_ccitt sg s = crc16_ccitt sg (takeWhile (\<lambda>c. c \<noteq> 0) s)
   \<and> calculate_checksum s = calculate_checksum (takeWhile (\<lambda>c. c \<noteq> 0) s)
   \<and> crc16_ccitt sg [] = 0xFFFF
   \<and> calculate_checksum [] = 0x00
   \<and> crc16_ccitt sg (p @ 0 # r) = crc16_ccitt sg p
   \<and> calculate_checksum (p @ 0 # r) = calculate_checksum p"
proof -
  have "crc16_ccitt sg (p @ 0 # r) = crc16_ccitt sg p"
    unfolding crc16_ccitt_def
    using crc16_loop_takeWhile[of sg "0xFFFF" "p @ 0 # r"] crc16_loop_takeWhile[of sg "0xFFFF" p]
    by (simp only: takeWhile_append_nul)
  moreover have "calculate_checksum (p @ 0 # r) = calculate_checksum p"
    unfolding calculate_checksum_def
    using xor_loop_takeWhile[of 0 "p @ 0 # r"] xor_loop_takeWhile[of 0 p]
    by (simp only: takeWhile_append_nul)
  moreover have "crc16_ccitt sg s = crc16_ccitt sg (takeWhile (\<lambda>c. c \<noteq> 0) s)"
    unfolding crc16_ccitt_def by (rule crc16_loop_takeWhile)
  moreover have "calculate_checksum s = calculate_checksum (takeWhile (\<lambda>c. c \<noteq> 0) s)"
    unfolding calculate_checksum_def by (rule xor_loop_takeWhile)
  ultimately show ?thesis
    by (simp add: crc16_ccitt_def calculate_checksum_def)
qed

section \<open>Single-bit corruption\<close>




section \<open>The filter\<close>

lemma madgwick_update_nondegenerate:
  "\<not> feq M (accel_norm M imu) (lit M 0) \<Longrightarrow> \<not> feq M (mag_norm M imu) (lit M 0) \<Longrightarrow>
   madgwick_update M q imu dt = gyro_update M q (gx imu) (gy imu) (gz imu) dt"
  by (simp add: madgwick_update_def gyro_update_def renormalize_def euler_step_def
      quat_rate_def accel_norm_def mag_norm_def inv_sqrt_def Let_def)

text \<open>In a commutative ring the components of \<open>quat_rate\<close> are those of half the
  Hamilton product of \<open>q\<close> with the pure quaternion of the angular rate.\<close>

lemma quat_rate_hamilton:
  fixes q :: "'f::comm_ring_1 quat"
  shows "quat_rate M q wx wy wz =
    (let p = quat_mul q \<lparr>q0 = 0, q1 = wx, q2 = wy, q3 = wz\<rparr>
     in \<lparr>q0 = lit M (1/2) * q0 p, q1 = lit M (1/2) * q1 p,
         q2 = lit M (1/2) * q2 p, q3 = lit M (1/2) * q3 p\<rparr>)"
  by (simp add: quat_rate_def quat_mul_def Let_def)



text \<open>
  C3. For every quaternion state, every \<open>dt\<close> and every sample whose accelerometer
  norm or magnetometer norm compares equal to zero, \<open>madgwick_update\<close> returns with
  all four quaternion components unchanged.
\<close>

theorem madgwick_update_degenerate_noop:
  assumes "feq M (accel_norm M imu) (lit M 0) \<or> feq M (mag_norm M imu) (lit M 0)"
  shows "madgwick_update M q imu dt = q"
  using assms
  by (auto simp add: madgwick_update_def accel_norm_def mag_norm_def Let_def)

theorem madgwick_update_degenerate_noop_witness:
  "(feq ideal (accel_norm ideal sample_free_fall) (lit ideal 0)
      \<or> feq ideal (mag_norm ideal sample_free_fall) (lit ideal 0))
   \<and> madgwick_update ideal \<lparr>q0 = 3/5, q1 = 0, q2 = 0, q3 = 4/5\<rparr> sample_free_fall (1/20)
       = \<lparr>q0 = 3/5, q1 = 0, q2 = 0, q3 = 4/5\<rparr>"
proof -
  have h: "feq ideal (accel_norm ideal sample_free_fall) (lit ideal 0)
      \<or> feq ideal (mag_norm ideal sample_free_fall) (lit ideal 0)"
    by (simp add: ideal_def accel_norm_def sample_free_fall_def)
  from madgwick_update_degenerate_noop[OF h, of "\<lparr>q0 = 3/5, q1 = 0, q2 = 0, q3 = 4/5\<rparr>" "1/20"] h
  show ?thesis
    by blast
qed

text \<open>
  C8. The quaternion is initialised to the identity \<open>(1, 0, 0, 0)\<close>; reading the Euler
  angles with \<open>ahrs_get_euler\<close> leaves all four components unchanged; and over one
  pass of the main loop the quaternion changes exactly as \<open>madgwick_update\<close> changes
  it.
\<close>

theorem quaternion_frame:
  "q_init M = \<lparr>q0 = lit M 1, q1 = lit M 0, q2 = lit M 0, q3 = lit M 0\<rparr>
   \<and> q_init ideal = \<lparr>q0 = 1, q1 = 0, q2 = 0, q3 = 0\<rparr>
   \<and> snd (ahrs_get_euler M q) = q
   \<and> fst (snd (main_tick M (q, t) imu ts)) = madgwick_update M q imu (LOOP_DT_SEC M)"
  by (simp add: q_init_def ideal_def ahrs_get_euler_def main_tick_def Let_def)

subsection \<open>The norm in exact arithmetic\<close>

text \<open>
  With real numbers for \<open>float\<close>, the Euler step scales the squared norm by
  \<open>1 + dt\<^sup>2 |\<omega>|\<^sup>2 / 4\<close> (the derivative is orthogonal to \<open>q\<close>), so the
  renormalisation never divides by zero and a unit quaternion stays one exactly.
  What the program's quaternion norm differs from 1 by is therefore rounding,
  overflow or NaN of the \<open>float\<close> operations, which are parameters here.
\<close>

lemma ideal_euler_step_norm2:
  "quat_norm2 (euler_step q (quat_rate ideal q wx wy wz) dt)
     = quat_norm2 q * (1 + (dt * dt) * (wx * wx + wy * wy + wz * wz) / 4)"
proof -
  have h: "lit ideal (1/2) = (1/2 :: real)"
    by (simp add: ideal_def of_rat_divide)
  show ?thesis
    unfolding quat_norm2_def euler_step_def quat_rate_def h
    by (simp add: field_simps)
qed

lemma ideal_renormalize_norm2:
  assumes "0 < quat_norm2 n"
  shows "quat_norm2 (renormalize ideal n) = 1"
proof -
  let ?N = "quat_norm2 n"
  have s: "(1 / sqrt ?N) * (1 / sqrt ?N) = 1 / ?N"
    using assms by (simp add: field_simps)
  have l: "lit ideal 1 = (1 :: real)" and r: "sqrtf ideal = sqrt"
    by (simp_all add: ideal_def)
  define s where "s = 1 / sqrt ?N"
  have "renormalize ideal n = \<lparr>q0 = q0 n * s, q1 = q1 n * s, q2 = q2 n * s, q3 = q3 n * s\<rparr>"
    unfolding renormalize_def l r s_def quat_norm2_def Let_def ..
  then have "quat_norm2 (renormalize ideal n) = ?N * (s * s)"
    by (simp add: quat_norm2_def algebra_simps)
  then have "quat_norm2 (renormalize ideal n) = ?N * ((1 / sqrt ?N) * (1 / sqrt ?N))"
    unfolding s_def .
  also have "\<dots> = 1"
    unfolding s using assms by simp
  finally show ?thesis .
qed

lemma ideal_update_unit_norm:
  assumes "quat_norm2 q = 1"
  shows "quat_norm2 (madgwick_update ideal q imu dt) = 1"
proof (cases "feq ideal (accel_norm ideal imu) (lit ideal 0)
    \<or> feq ideal (mag_norm ideal imu) (lit ideal 0)")
  case True
  then have "madgwick_update ideal q imu dt = q"
    by (auto simp add: madgwick_update_def accel_norm_def mag_norm_def Let_def)
  then show ?thesis
    using assms by simp
next
  case False
  then have u: "madgwick_update ideal q imu dt = gyro_update ideal q (gx imu) (gy imu) (gz imu) dt"
    by (simp add: madgwick_update_nondegenerate)
  have "0 \<le> (dt * dt) * (wx * wx + wy * wy + wz * wz) / 4" for wx wy wz :: real
    by (simp add: zero_le_mult_iff)
  then have "0 < 1 * (1 + (dt * dt) * (wx * wx + wy * wy + wz * wz) / 4)" for wx wy wz :: real
    by (simp add: add_pos_nonneg)
  then have "0 < quat_norm2 (euler_step q (quat_rate ideal q wx wy wz) dt)" for wx wy wz
    unfolding ideal_euler_step_norm2 assms .
  then show ?thesis
    unfolding u gyro_update_def by (rule ideal_renormalize_norm2)
qed

lemma ideal_init_unit_norm: "quat_norm2 (q_init ideal) = 1"
  by (simp add: quat_norm2_def q_init_def ideal_def)

lemma ideal_updates_unit_norm:
  "quat_norm2 q = 1 \<Longrightarrow>
   quat_norm2 (foldl (\<lambda>q (imu, dt). madgwick_update ideal q imu dt) q samples) = 1"
  by (induction samples arbitrary: q) (auto simp: ideal_update_unit_norm)

subsection \<open>The heading in exact arithmetic\<close>

text \<open>
  With real numbers for \<open>float\<close>, one pass at 10 degrees per second and \<open>dt = 1/20\<close>
  turns the quaternion about the vertical by the half angle \<open>arctan (\<pi> / 720)\<close>: the
  Euler step adds \<open>\<pi> / 720\<close> times the orthogonal quaternion and the renormalisation
  brings the sum back to the unit circle. The heading therefore grows by
  \<open>2 arctan (\<pi> / 720)\<close> radians per pass, a little less than half a degree.
\<close>

lemma arctan_le_self: assumes "0 \<le> x" shows "arctan x \<le> x"
proof -
  have "(\<lambda>t. t - arctan t) 0 \<le> (\<lambda>t. t - arctan t) x"
  proof (rule DERIV_nonneg_imp_nondecreasing[OF assms])
    fix y :: real
    have "((\<lambda>t. t - arctan t) has_real_derivative (1 - inverse (1 + y\<^sup>2))) (at y)"
      by (auto intro!: derivative_eq_intros)
    moreover have "0 \<le> 1 - inverse (1 + y\<^sup>2)"
      using inverse_le_1_iff[of "1 + y\<^sup>2"] by simp
    ultimately show "\<exists>d. ((\<lambda>t. t - arctan t) has_real_derivative d) (at y) \<and> 0 \<le> d"
      by blast
  qed
  then show ?thesis by simp
qed

lemma rotation_norm:
  "(c - a * s) * (c - a * s) + (s + a * c) * (s + a * c) = (s\<^sup>2 + c\<^sup>2) * (1 + a\<^sup>2)"
  for a c s :: real
  by (simp add: power2_eq_square algebra_simps)

lemma rotation_cos: "(c - a * s) * (1 / r) = c * (1 / r) - s * (a / r)" for a c s r :: real
  by (simp add: diff_divide_distrib mult.commute)

lemma rotation_sin: "(s + a * c) * (1 / r) = s * (1 / r) + c * (a / r)" for a c s r :: real
  by (simp add: add_divide_distrib mult.commute)

lemma ideal_consts:
  "deg2rad ideal 10 = pi / 18" "LOOP_DT_SEC ideal = 1 / 20" "lit ideal (1/2) = 1 / 2"
  "lit ideal 1 = 1" "lit ideal 0 = 0" "sqrtf ideal = sqrt" "deg2rad ideal 0 = 0" "feq ideal = (=)"
  by (simp_all add: ideal_def deg2rad_def LOOP_DT_SEC_def LOOP_HZ_def of_rat_divide)

lemma cos_tick: "cos tick_angle = 1 / sqrt (1 + (pi / 720)\<^sup>2)"
  unfolding tick_angle_def by (rule cos_arctan)

lemma sin_tick: "sin tick_angle = (pi / 720) / sqrt (1 + (pi / 720)\<^sup>2)"
  unfolding tick_angle_def by (rule sin_arctan)

lemma ideal_tick_rotation:
  "madgwick_update ideal \<lparr>q0 = cos th, q1 = 0, q2 = 0, q3 = sin th\<rparr> sample_level (LOOP_DT_SEC ideal)
     = \<lparr>q0 = cos (th + tick_angle), q1 = 0, q2 = 0, q3 = sin (th + tick_angle)\<rparr>"
proof -
  let ?a = "pi / 720 :: real"
  let ?s = "1 / sqrt (1 + ?a\<^sup>2)"
  have nd: "\<not> feq ideal (accel_norm ideal sample_level) (lit ideal 0)"
    "\<not> feq ideal (mag_norm ideal sample_level) (lit ideal 0)"
    by (simp_all add: ideal_def accel_norm_def mag_norm_def sample_level_def)
  have g: "gx sample_level = 0" "gy sample_level = 0" "gz sample_level = 10"
    by (simp_all add: sample_level_def)
  have e: "euler_step \<lparr>q0 = cos th, q1 = 0, q2 = 0, q3 = sin th\<rparr>
      (quat_rate ideal \<lparr>q0 = cos th, q1 = 0, q2 = 0, q3 = sin th\<rparr> 0 0 (pi / 18)) (1 / 20)
     = \<lparr>q0 = cos th - ?a * sin th, q1 = 0, q2 = 0, q3 = sin th + ?a * cos th\<rparr>"
    by (simp add: euler_step_def quat_rate_def ideal_consts)
  have n: "(cos th - ?a * sin th) * (cos th - ?a * sin th) + 0 * 0 + 0 * 0
      + (sin th + ?a * cos th) * (sin th + ?a * cos th) = 1 + ?a\<^sup>2"
  proof -
    have "(cos th - ?a * sin th) * (cos th - ?a * sin th)
      + (sin th + ?a * cos th) * (sin th + ?a * cos th)
      = ((sin th)\<^sup>2 + (cos th)\<^sup>2) * (1 + ?a\<^sup>2)"
      by (rule rotation_norm)
    then show ?thesis by (simp only: sin_cos_squared_add mult_zero_left add_0_right mult_1)
  qed
  have "madgwick_update ideal \<lparr>q0 = cos th, q1 = 0, q2 = 0, q3 = sin th\<rparr> sample_level (LOOP_DT_SEC ideal)
    = renormalize ideal \<lparr>q0 = cos th - ?a * sin th, q1 = 0, q2 = 0, q3 = sin th + ?a * cos th\<rparr>"
    unfolding madgwick_update_nondegenerate[OF nd] gyro_update_def g ideal_consts e ..
  also have "\<dots> = \<lparr>q0 = (cos th - ?a * sin th) * ?s, q1 = 0, q2 = 0, q3 = (sin th + ?a * cos th) * ?s\<rparr>"
    unfolding renormalize_def ideal_consts Let_def by (simp only: quat.simps n) simp
  also have "(cos th - ?a * sin th) * ?s = cos (th + tick_angle)"
    unfolding cos_add cos_tick sin_tick by (rule rotation_cos)
  also have "(sin th + ?a * cos th) * ?s = sin (th + tick_angle)"
    unfolding sin_add cos_tick sin_tick by (rule rotation_sin)
  finally show ?thesis .
qed

lemma ideal_ticks:
  "((\<lambda>q. madgwick_update ideal q sample_level (LOOP_DT_SEC ideal)) ^^ k) (q_init ideal)
     = \<lparr>q0 = cos (real k * tick_angle), q1 = 0, q2 = 0, q3 = sin (real k * tick_angle)\<rparr>"
proof (induction k)
  case 0
  show ?case by (simp add: q_init_def ideal_consts)
next
  case (Suc k)
  have "real k * tick_angle + tick_angle = real (Suc k) * tick_angle"
    by (simp add: algebra_simps)
  then show ?case
    by (simp add: Suc.IH ideal_tick_rotation)
qed

lemma tick_angle_bounds: "0 < tick_angle" "tick_angle \<le> pi / 720"
  unfolding tick_angle_def using arctan_le_self[of "pi / 720"] by simp_all

lemma ideal_heading_eq:
  assumes "k \<le> 20"
  shows "ideal_heading k = real k * (2 * tick_angle * (180 / pi))"
proof -
  let ?t = "2 * (real k * tick_angle)"
  have "real k * tick_angle \<le> 20 * (pi / 720)"
    using assms tick_angle_bounds by (intro mult_mono) simp_all
  then have up: "?t < pi / 2"
    using pi_gt_zero by linarith
  have lo: "0 \<le> ?t"
    using tick_angle_bounds by simp
  have c: "0 < cos ?t"
    using lo up pi_gt_zero by (intro cos_gt_zero_pi) linarith+
  have s2: "2 * (cos (real k * tick_angle) * sin (real k * tick_angle) + 0 * 0) = sin ?t"
    by (simp add: sin_double)
  have c2: "1 - 2 * (0 * 0 + sin (real k * tick_angle) * sin (real k * tick_angle)) = cos ?t"
    by (simp add: cos_double_sin power2_eq_square)
  have "ideal_atan2 (sin ?t) (cos ?t) = arctan (tan ?t)"
    using c by (simp add: ideal_atan2_def tan_def)
  also have "\<dots> = ?t"
    using lo up pi_gt_zero by (intro arctan_tan) linarith+
  finally have a: "ideal_atan2 (sin ?t) (cos ?t) = ?t" .
  have "ideal_heading k = rad2deg ideal (ideal_atan2 (sin ?t) (cos ?t))"
    unfolding ideal_heading_def ideal_ticks ahrs_get_euler_def Let_def
    by (simp add: ideal_def s2[simplified] c2[simplified])
  also have "\<dots> = ?t * (180 / pi)"
    unfolding a by (simp add: rad2deg_def ideal_def)
  finally show ?thesis by (simp add: algebra_simps)
qed


lemma tick_step_upper: "2 * tick_angle * (180 / pi) \<le> 1 / 2"
proof -
  have "tick_angle * (360 / pi) \<le> (pi / 720) * (360 / pi)"
    using tick_angle_bounds(2) pi_gt_zero by (intro mult_right_mono) simp_all
  also have "\<dots> = 1 / 2"
    by simp
  finally show ?thesis
    by simp
qed

lemma tick_step_lower: "4999 / 10000 < 2 * tick_angle * (180 / pi)"
proof -
  let ?x = "1 + (pi / 720)\<^sup>2"
  have "pi * pi < 4 * 4"
    using pi_less_4 pi_gt_zero by (intro mult_strict_mono) simp_all
  then have a2: "(pi / 720)\<^sup>2 \<le> 1 / 32400"
    by (simp add: power2_eq_square)
  have x1: "1 \<le> ?x"
    by simp
  then have "1 * ?x \<le> ?x * ?x"
    by (intro mult_right_mono) simp_all
  then have "sqrt ?x \<le> ?x"
    by (intro real_le_lsqrt) (simp_all add: power2_eq_square[of ?x])
  then have r: "sqrt ?x \<le> 32401 / 32400"
    using a2 by linarith
  have rp: "0 < sqrt ?x"
    using x1 by (simp add: add_pos_nonneg)
  have "(pi / 720) / (32401 / 32400) \<le> (pi / 720) / sqrt ?x"
    using r rp pi_gt_zero by (intro divide_left_mono) simp_all
  also have "\<dots> = sin tick_angle"
    by (simp only: sin_tick)
  also have "\<dots> \<le> tick_angle"
    using tick_angle_bounds(1) by (intro sin_x_le_x) simp
  finally have "(pi / 720) / (32401 / 32400) \<le> tick_angle" .
  then have "(pi / 720) / (32401 / 32400) * (360 / pi) \<le> tick_angle * (360 / pi)"
    using pi_gt_zero by (intro mult_right_mono) simp_all
  then have "16200 / 32401 \<le> tick_angle * (360 / pi)"
    by simp
  then show ?thesis
    by simp
qed

lemma ideal_heading_scenario:
  assumes "k < 20"
  shows "ideal_heading 0 = 0"
    and "ideal_heading (Suc k) - ideal_heading k = 2 * tick_angle * (180 / pi)"
    and "ideal_heading k < ideal_heading (Suc k)"
    and "4999 / 10000 < ideal_heading (Suc k) - ideal_heading k"
    and "ideal_heading (Suc k) - ideal_heading k \<le> 1 / 2"
proof -
  show "ideal_heading 0 = 0"
    by (simp add: ideal_heading_eq)
  show d: "ideal_heading (Suc k) - ideal_heading k = 2 * tick_angle * (180 / pi)"
    using assms by (simp add: ideal_heading_eq algebra_simps add_divide_distrib)
  show "4999 / 10000 < ideal_heading (Suc k) - ideal_heading k"
    unfolding d by (rule tick_step_lower)
  then show "ideal_heading k < ideal_heading (Suc k)"
    by simp
  show "ideal_heading (Suc k) - ideal_heading k \<le> 1 / 2"
    unfolding d by (rule tick_step_upper)
qed

section \<open>The frame\<close>

lemma hex_digit_0: "hex_digit 0 = 0x30"
  by (simp add: hex_digit_def cstring_def)















end
